theory Spec2Isabelle
  imports Complex_Main "HOL-Library.Sublist" "HOL-Library.Multiset"
begin

section \<open>Numbers\<close>

text \<open>
  The TypeScript sources compute on \<open>number\<close>. The embedding reads a finite \<open>number\<close> as a
  \<^typ>\<open>real\<close>: decimal constants are written as fractions, and the rounding error of
  IEEE-754 double arithmetic is not part of the model. A field of type
  \<open>number | null\<close> (or an optional field, which may also be \<open>undefined\<close>) is a
  \<^typ>\<open>real option\<close>; the sources never tell \<open>null\<close> from \<open>undefined\<close>, so both are
  \<^term>\<open>None\<close>.
\<close>

text \<open>\<open>Math.round\<close>: the nearest integer, a tie going towards plus infinity.\<close>

definition Math_round :: "real \<Rightarrow> int" where
  "Math_round x = \<lfloor>x + 1 / 2\<rfloor>"

section \<open>src/lib/composite-score.ts\<close>

subsection \<open>The statistics table\<close>

record IndicatorStat =
  mean :: real
  std :: real
  invert :: bool
  weight :: real

text \<open>The five keys of \<open>INDICATOR_STATS\<close>, in the order of the table.\<close>

datatype StatKey = HY_Spread | VIX | Initial_Claims | SP_vs_200MA | Yield_Curve_10Y_2Y

fun INDICATOR_STATS :: "StatKey \<Rightarrow> IndicatorStat" where
  "INDICATOR_STATS HY_Spread =
     \<lparr>mean = 5134 / 1000, std = 25271 / 10000, invert = False, weight = 281 / 1000\<rparr>"
| "INDICATOR_STATS VIX =
     \<lparr>mean = 20097 / 1000, std = 80555 / 10000, invert = False, weight = 2569 / 10000\<rparr>"
| "INDICATOR_STATS Initial_Claims =
     \<lparr>mean = 3588626001 / 10000, std = 3180579358 / 10000, invert = False,
      weight = 2351 / 10000\<rparr>"
| "INDICATOR_STATS SP_vs_200MA =
     \<lparr>mean = 34949 / 10000, std = 79576 / 10000, invert = True, weight = 1628 / 10000\<rparr>"
| "INDICATOR_STATS Yield_Curve_10Y_2Y =
     \<lparr>mean = 9484 / 10000, std = 929 / 1000, invert = False, weight = 629 / 10000\<rparr>"

subsection \<open>The input and its aliases\<close>

record CompositeScoreInput =
  hySpread :: "real option"
  hy_spread :: "real option"
  vix :: "real option"
  initialClaims :: "real option"
  initial_claims :: "real option"
  spyVs200MA :: "real option"
  spyVs200ma :: "real option"
  spy_vs_200ma :: "real option"
  yieldCurve10Y2Y :: "real option"
  yield_curve_10y2y :: "real option"

text \<open>\<open>keyof CompositeScoreInput\<close>, and the property read \<open>data[key]\<close>.\<close>

datatype InputKey =
  K_hySpread | K_hy_spread | K_vix | K_initialClaims | K_initial_claims
  | K_spyVs200MA | K_spyVs200ma | K_spy_vs_200ma | K_yieldCurve10Y2Y | K_yield_curve_10y2y

fun field :: "CompositeScoreInput \<Rightarrow> InputKey \<Rightarrow> real option" where
  "field d K_hySpread = hySpread d"
| "field d K_hy_spread = hy_spread d"
| "field d K_vix = vix d"
| "field d K_initialClaims = initialClaims d"
| "field d K_initial_claims = initial_claims d"
| "field d K_spyVs200MA = spyVs200MA d"
| "field d K_spyVs200ma = spyVs200ma d"
| "field d K_spy_vs_200ma = spy_vs_200ma d"
| "field d K_yieldCurve10Y2Y = yieldCurve10Y2Y d"
| "field d K_yield_curve_10y2y = yield_curve_10y2y d"

text \<open>\<open>getValue\<close>: the first key, in the order given, whose value is neither
  \<open>undefined\<close> nor \<open>null\<close>.\<close>

fun getValue :: "CompositeScoreInput \<Rightarrow> InputKey list \<Rightarrow> real option" where
  "getValue d [] = None"
| "getValue d (k # ks) = (case field d k of Some v \<Rightarrow> Some v | None \<Rightarrow> getValue d ks)"

subsection \<open>The score\<close>

text \<open>
  \<open>calculateCompositeScore\<close> runs the same block once per indicator on the two
  accumulators \<open>weightedZScore\<close> and \<open>totalWeight\<close>. \<open>accumulate\<close> is that block, on
  the pair of accumulators.
\<close>

fun accumulate :: "StatKey \<Rightarrow> real option \<Rightarrow> real \<times> real \<Rightarrow> real \<times> real" where
  "accumulate k None (weightedZScore, totalWeight) = (weightedZScore, totalWeight)"
| "accumulate k (Some x) (weightedZScore, totalWeight) =
     (let stat = INDICATOR_STATS k;
          val = (if invert stat then - x else x);
          zscore = (val - mean stat) / std stat
      in (weightedZScore + zscore * weight stat, totalWeight + weight stat))"

definition accumulators :: "CompositeScoreInput \<Rightarrow> real \<times> real" where
  "accumulators d =
     accumulate Yield_Curve_10Y_2Y (getValue d [K_yieldCurve10Y2Y, K_yield_curve_10y2y])
      (accumulate SP_vs_200MA (getValue d [K_spyVs200MA, K_spyVs200ma, K_spy_vs_200ma])
        (accumulate Initial_Claims (getValue d [K_initialClaims, K_initial_claims])
          (accumulate VIX (getValue d [K_vix])
            (accumulate HY_Spread (getValue d [K_hySpread, K_hy_spread]) (0, 0)))))"

definition calculateCompositeScore :: "CompositeScoreInput \<Rightarrow> real" where
  "calculateCompositeScore d =
     (case accumulators d of (weightedZScore, totalWeight) \<Rightarrow>
        if totalWeight = 0 then 50
        else
          let avgZScore = weightedZScore / totalWeight;
              score = avgZScore * 10 + 50
          in real_of_int (Math_round (max 0 (min 100 score) * 100)) / 100)"

text \<open>The input with no field populated, \<open>{}\<close>.\<close>

definition emptyInput :: CompositeScoreInput where
  "emptyInput =
     \<lparr>hySpread = None, hy_spread = None, vix = None, initialClaims = None,
      initial_claims = None, spyVs200MA = None, spyVs200ma = None, spy_vs_200ma = None,
      yieldCurve10Y2Y = None, yield_curve_10y2y = None\<rparr>"

section \<open>src/Market.tsx\<close>

subsection \<open>The persisted history and the current snapshot\<close>

text \<open>
  \<open>MarketHistoryRecord\<close>, with the columns that the functions below read: the date, the
  eleven indicator columns and the stored score. The price and macro columns of the
  interface are read by the charts only and are left out.
\<close>

record MarketHistoryRecord =
  date :: string
  fear_greed :: "real option"
  vix :: "real option"
  spy_vs_200ma :: "real option"
  buffett_indicator :: "real option"
  fed_balance_sheet_yoy :: "real option"
  m2_growth_yoy :: "real option"
  hy_spread :: "real option"
  yield_curve_10y2y :: "real option"
  yield_curve_10y3m :: "real option"
  initial_claims :: "real option"
  erp :: "real option"
  composite_score :: real

text \<open>The values of \<open>keyof MarketHistoryRecord\<close> that the source passes as a history
  field, and the read \<open>record[field]\<close>.\<close>

datatype HistoryField =
  F_fear_greed | F_vix | F_spy_vs_200ma | F_buffett_indicator | F_fed_balance_sheet_yoy
  | F_m2_growth_yoy | F_hy_spread | F_yield_curve_10y2y | F_yield_curve_10y3m
  | F_initial_claims | F_erp

fun column :: "MarketHistoryRecord \<Rightarrow> HistoryField \<Rightarrow> real option" where
  "column r F_fear_greed = fear_greed r"
| "column r F_vix = MarketHistoryRecord.vix r"
| "column r F_spy_vs_200ma = MarketHistoryRecord.spy_vs_200ma r"
| "column r F_buffett_indicator = buffett_indicator r"
| "column r F_fed_balance_sheet_yoy = fed_balance_sheet_yoy r"
| "column r F_m2_growth_yoy = m2_growth_yoy r"
| "column r F_hy_spread = MarketHistoryRecord.hy_spread r"
| "column r F_yield_curve_10y2y = MarketHistoryRecord.yield_curve_10y2y r"
| "column r F_yield_curve_10y3m = yield_curve_10y3m r"
| "column r F_initial_claims = MarketHistoryRecord.initial_claims r"
| "column r F_erp = erp r"

text \<open>
  The nested objects of \<open>MarketIndicators\<close>. Their types have no name in the source; the
  fields carry the name of the object as a prefix, since several of them are called
  \<open>value\<close>.
\<close>

record FearGreedData =
  fg_value :: real
  fg_rating :: string
  fg_previousClose :: real
  fg_oneWeekAgo :: real
  fg_oneMonthAgo :: real
  fg_oneYearAgo :: real

record SpyVs200MAData =
  spy_currentPrice :: real
  spy_ma200 :: real
  spy_percentAbove :: real

record BuffettIndicatorData =
  bi_value :: real
  bi_gdp :: real
  bi_marketCap :: real

record FedBalanceSheetData =
  fed_value :: real
  fed_yoyChange :: real

record M2GrowthData =
  m2_value :: real
  m2_yoyChange :: real

record InitialClaimsData =
  ic_value :: real
  ic_fourWeekAvg :: real

record MarketIndicators =
  fearGreed :: "FearGreedData option"
  vix :: "real option"
  spyVs200MA :: "SpyVs200MAData option"
  buffettIndicator :: "BuffettIndicatorData option"
  fedBalanceSheet :: "FedBalanceSheetData option"
  m2Growth :: "M2GrowthData option"
  highYieldSpread :: "real option"
  yieldCurve10Y2Y :: "real option"
  yieldCurve10Y3M :: "real option"
  initialClaims :: "InitialClaimsData option"
  erp :: "real option"
  treasury3m :: "real option"
  lastUpdated :: string

subsection \<open>Scoring helpers\<close>

definition normalizeScore :: "real \<Rightarrow> real \<Rightarrow> real \<Rightarrow> bool \<Rightarrow> real" where
  "normalizeScore v lo hi inverted =
     (let clamped = max lo (min hi v);
          normalized = ((clamped - lo) / (hi - lo)) * 100
      in if inverted then 100 - normalized else normalized)"

text \<open>\<open>applyExtremeCap\<close>; every call in the source leaves the two caps at their defaults,
  15 and 85.\<close>

definition applyExtremeCap :: "real \<Rightarrow> real \<Rightarrow> real \<Rightarrow> real" where
  "applyExtremeCap s minCap maxCap = max minCap (min maxCap s)"

datatype IndicatorTiming = leading | coincident | lagging

record TimingInfo =
  timing :: IndicatorTiming
  currentWeight :: real
  momentumWeight :: real

definition indicatorTiming :: "string \<rightharpoonup> TimingInfo" where
  "indicatorTiming = map_of
     [(''Fear & Greed'', \<lparr>timing = lagging, currentWeight = 9 / 10, momentumWeight = 1 / 10\<rparr>),
      (''VIX'', \<lparr>timing = coincident, currentWeight = 7 / 10, momentumWeight = 3 / 10\<rparr>),
      (''S&P vs 200MA'',
         \<lparr>timing = coincident, currentWeight = 7 / 10, momentumWeight = 3 / 10\<rparr>),
      (''Buffett Indicator'',
         \<lparr>timing = lagging, currentWeight = 9 / 10, momentumWeight = 1 / 10\<rparr>),
      (''Equity Risk Premium'',
         \<lparr>timing = coincident, currentWeight = 7 / 10, momentumWeight = 3 / 10\<rparr>),
      (''Fed Balance Sheet'',
         \<lparr>timing = leading, currentWeight = 5 / 10, momentumWeight = 5 / 10\<rparr>),
      (''M2 Growth'', \<lparr>timing = leading, currentWeight = 5 / 10, momentumWeight = 5 / 10\<rparr>),
      (''HY Spread'', \<lparr>timing = leading, currentWeight = 5 / 10, momentumWeight = 5 / 10\<rparr>),
      (''Yield Curve 10Y-2Y'',
         \<lparr>timing = leading, currentWeight = 5 / 10, momentumWeight = 5 / 10\<rparr>),
      (''Yield Curve 10Y-3M'',
         \<lparr>timing = leading, currentWeight = 5 / 10, momentumWeight = 5 / 10\<rparr>),
      (''Initial Claims'',
         \<lparr>timing = coincident, currentWeight = 7 / 10, momentumWeight = 3 / 10\<rparr>)]"

text \<open>
  \<open>IndicatorScore\<close>. The display string \<open>value\<close> (built with \<open>toFixed\<close>) and the Korean
  \<open>description\<close> are presentation only and are left out; \<open>range\<close>, \<open>min\<close> and \<open>max\<close>
  carry a suffix, their names being constants of HOL.
\<close>

record IndicatorScore =
  name :: string
  score :: real
  baseScore :: real
  momentumScore :: real
  category :: string
  range_s :: string
  rawValue :: real
  min_v :: real
  max_v :: real
  timing :: IndicatorTiming

definition calculateMomentumScore :: "real \<Rightarrow> real option \<Rightarrow> real" where
  "calculateMomentumScore currentScore threeMonthAgoScore =
     (case threeMonthAgoScore of
        None \<Rightarrow> 50
      | Some past \<Rightarrow>
          let change = currentScore - past;
              normalizedChange = ((change + 30) / 60) * 100
          in max 0 (min 100 normalizedChange))"

text \<open>\<open>getThreeMonthAgoValue\<close>. Reading an array past its end gives \<open>undefined\<close> in the
  source, which happens for the empty history only, and the function then returns
  \<open>null\<close>.\<close>

definition getThreeMonthAgoValue :: "MarketHistoryRecord list \<Rightarrow> HistoryField \<Rightarrow> real option"
  where
  "getThreeMonthAgoValue history fld =
     (let targetIndex = nat (max 0 (int (length history) - 13))
      in if targetIndex < length history then column (history ! targetIndex) fld else None)"

subsection \<open>\<open>calculateIndicatorScores\<close>\<close>

text \<open>The inner function \<open>addIndicator\<close> pushes one entry on the array \<open>scores\<close> of the
  enclosing call; here it takes the array and returns the longer one.\<close>

definition addIndicator ::
  "MarketHistoryRecord list \<Rightarrow> IndicatorScore list \<Rightarrow> string \<Rightarrow> real \<Rightarrow> real \<Rightarrow> string
     \<Rightarrow> string \<Rightarrow> real \<Rightarrow> real \<Rightarrow> HistoryField \<Rightarrow> bool \<Rightarrow> IndicatorScore list" where
  "addIndicator history scores nm raw baseScoreRaw cat rng lo hi historyField inverted =
     (let tm = (case indicatorTiming nm of
                  Some t \<Rightarrow> t
                | None \<Rightarrow>
                    \<lparr>TimingInfo.timing = coincident, currentWeight = 7 / 10,
                     momentumWeight = 3 / 10\<rparr>);
          base = applyExtremeCap baseScoreRaw 15 85;
          threeMonthAgoValue = getThreeMonthAgoValue history historyField;
          momentum =
            (case threeMonthAgoValue of
               None \<Rightarrow> 50
             | Some past \<Rightarrow>
                 let threeMonthAgoScore =
                       (if inverted then normalizeScore past lo hi True
                        else normalizeScore past lo hi False)
                 in calculateMomentumScore baseScoreRaw (Some threeMonthAgoScore));
          finalScore =
            applyExtremeCap (base * currentWeight tm + momentum * momentumWeight tm) 15 85
      in scores @
           [\<lparr>name = nm, score = finalScore, baseScore = base, momentumScore = momentum,
             category = cat, range_s = rng, rawValue = raw, min_v = lo, max_v = hi,
             timing = TimingInfo.timing tm\<rparr>])"

text \<open>
  The body of \<open>calculateIndicatorScores\<close> is eleven guarded calls of \<open>addIndicator\<close>, one
  definition each below, in the order of the source. A guard \<open>if (data.x)\<close> on a number
  is false for \<open>null\<close> and for 0; on an object it is false for \<open>null\<close> only; the guard
  \<open>data.x !== null\<close> is false for \<open>null\<close> only.
\<close>

definition block_fearGreed ::
  "MarketIndicators \<Rightarrow> MarketHistoryRecord list \<Rightarrow> IndicatorScore list \<Rightarrow> IndicatorScore list"
  where
  "block_fearGreed d history scores =
     (case fearGreed d of
        None \<Rightarrow> scores
      | Some fg \<Rightarrow>
          addIndicator history scores ''Fear & Greed'' (fg_value fg) (100 - fg_value fg)
            ''sentiment'' ''0-100'' 0 100 F_fear_greed True)"

definition block_vix ::
  "MarketIndicators \<Rightarrow> MarketHistoryRecord list \<Rightarrow> IndicatorScore list \<Rightarrow> IndicatorScore list"
  where
  "block_vix d history scores =
     (case MarketIndicators.vix d of
        None \<Rightarrow> scores
      | Some v \<Rightarrow>
          if v = 0 then scores
          else addIndicator history scores ''VIX'' v (normalizeScore v 12 40 False)
                 ''sentiment'' ''12-40'' 12 40 F_vix False)"

definition block_spyVs200MA ::
  "MarketIndicators \<Rightarrow> MarketHistoryRecord list \<Rightarrow> IndicatorScore list \<Rightarrow> IndicatorScore list"
  where
  "block_spyVs200MA d history scores =
     (case MarketIndicators.spyVs200MA d of
        None \<Rightarrow> scores
      | Some spy \<Rightarrow>
          addIndicator history scores ''S&P vs 200MA'' (spy_percentAbove spy)
            (normalizeScore (spy_percentAbove spy) (- 10) 10 True)
            ''sentiment'' ''-10% ~ +10%'' (- 10) 10 F_spy_vs_200ma True)"

definition block_buffettIndicator ::
  "MarketIndicators \<Rightarrow> MarketHistoryRecord list \<Rightarrow> IndicatorScore list \<Rightarrow> IndicatorScore list"
  where
  "block_buffettIndicator d history scores =
     (case buffettIndicator d of
        None \<Rightarrow> scores
      | Some bi \<Rightarrow>
          addIndicator history scores ''Buffett Indicator'' (bi_value bi)
            (normalizeScore (bi_value bi) 80 250 True)
            ''valuation'' ''80-250%'' 80 250 F_buffett_indicator True)"

definition block_erp ::
  "MarketIndicators \<Rightarrow> MarketHistoryRecord list \<Rightarrow> IndicatorScore list \<Rightarrow> IndicatorScore list"
  where
  "block_erp d history scores =
     (case MarketIndicators.erp d of
        None \<Rightarrow> scores
      | Some v \<Rightarrow>
          addIndicator history scores ''Equity Risk Premium'' v
            (normalizeScore v (- 2) 6 False)
            ''valuation'' ''-2% ~ +6%'' (- 2) 6 F_erp False)"

definition block_fedBalanceSheet ::
  "MarketIndicators \<Rightarrow> MarketHistoryRecord list \<Rightarrow> IndicatorScore list \<Rightarrow> IndicatorScore list"
  where
  "block_fedBalanceSheet d history scores =
     (case fedBalanceSheet d of
        None \<Rightarrow> scores
      | Some fed \<Rightarrow>
          addIndicator history scores ''Fed Balance Sheet'' (fed_yoyChange fed)
            (normalizeScore (fed_yoyChange fed) (- 5) 15 True)
            ''liquidity'' ''-5% ~ +15%'' (- 5) 15 F_fed_balance_sheet_yoy True)"

definition block_m2Growth ::
  "MarketIndicators \<Rightarrow> MarketHistoryRecord list \<Rightarrow> IndicatorScore list \<Rightarrow> IndicatorScore list"
  where
  "block_m2Growth d history scores =
     (case m2Growth d of
        None \<Rightarrow> scores
      | Some m2 \<Rightarrow>
          addIndicator history scores ''M2 Growth'' (m2_yoyChange m2)
            (normalizeScore (m2_yoyChange m2) (- 5) 10 True)
            ''liquidity'' ''-5% ~ +10%'' (- 5) 10 F_m2_growth_yoy True)"

definition block_highYieldSpread ::
  "MarketIndicators \<Rightarrow> MarketHistoryRecord list \<Rightarrow> IndicatorScore list \<Rightarrow> IndicatorScore list"
  where
  "block_highYieldSpread d history scores =
     (case highYieldSpread d of
        None \<Rightarrow> scores
      | Some v \<Rightarrow>
          if v = 0 then scores
          else addIndicator history scores ''HY Spread'' v
                 (normalizeScore v (25 / 10) 8 False)
                 ''credit'' ''2.5-8%'' (25 / 10) 8 F_hy_spread False)"

definition block_yieldCurve10Y2Y ::
  "MarketIndicators \<Rightarrow> MarketHistoryRecord list \<Rightarrow> IndicatorScore list \<Rightarrow> IndicatorScore list"
  where
  "block_yieldCurve10Y2Y d history scores =
     (case MarketIndicators.yieldCurve10Y2Y d of
        None \<Rightarrow> scores
      | Some v \<Rightarrow>
          addIndicator history scores ''Yield Curve 10Y-2Y'' v
            (normalizeScore v (- 1) 2 False)
            ''macro'' ''-1% ~ +2%'' (- 1) 2 F_yield_curve_10y2y False)"

definition block_yieldCurve10Y3M ::
  "MarketIndicators \<Rightarrow> MarketHistoryRecord list \<Rightarrow> IndicatorScore list \<Rightarrow> IndicatorScore list"
  where
  "block_yieldCurve10Y3M d history scores =
     (case yieldCurve10Y3M d of
        None \<Rightarrow> scores
      | Some v \<Rightarrow>
          addIndicator history scores ''Yield Curve 10Y-3M'' v
            (normalizeScore v (- 1) 2 False)
            ''macro'' ''-1% ~ +2%'' (- 1) 2 F_yield_curve_10y3m False)"

definition block_initialClaims ::
  "MarketIndicators \<Rightarrow> MarketHistoryRecord list \<Rightarrow> IndicatorScore list \<Rightarrow> IndicatorScore list"
  where
  "block_initialClaims d history scores =
     (case MarketIndicators.initialClaims d of
        None \<Rightarrow> scores
      | Some ic \<Rightarrow>
          addIndicator history scores ''Initial Claims'' (ic_value ic)
            (normalizeScore (ic_value ic) 200000 400000 False)
            ''macro'' ''200K-400K'' 200000 400000 F_initial_claims False)"

definition calculateIndicatorScores ::
  "MarketIndicators \<Rightarrow> MarketHistoryRecord list \<Rightarrow> IndicatorScore list" where
  "calculateIndicatorScores d history =
     block_initialClaims d history
      (block_yieldCurve10Y3M d history
        (block_yieldCurve10Y2Y d history
          (block_highYieldSpread d history
            (block_m2Growth d history
              (block_fedBalanceSheet d history
                (block_erp d history
                  (block_buffettIndicator d history
                    (block_spyVs200MA d history
                      (block_vix d history
                        (block_fearGreed d history []))))))))))"

subsection \<open>The stance\<close>

datatype InvestmentStance =
  aggressive_plus | aggressive | moderate_aggressive | neutral | moderate_defensive
  | defensive | unknown

definition determineInvestmentStance :: "real \<Rightarrow> InvestmentStance" where
  "determineInvestmentStance avgScore =
     (if avgScore \<ge> 60 then aggressive_plus
      else if avgScore \<ge> 55 then aggressive
      else if avgScore \<ge> 50 then moderate_aggressive
      else if avgScore \<ge> 45 then neutral
      else if avgScore \<ge> 41 then moderate_defensive
      else if avgScore \<ge> 0 then defensive
      else unknown)"

subsection \<open>The commentary on extreme indicators\<close>

definition indicatorToHistoryField :: "string \<rightharpoonup> HistoryField" where
  "indicatorToHistoryField = map_of
     [(''Fear & Greed'', F_fear_greed),
      (''VIX'', F_vix),
      (''S&P vs 200MA'', F_spy_vs_200ma),
      (''Buffett Indicator'', F_buffett_indicator),
      (''Equity Risk Premium'', F_erp),
      (''Fed Balance Sheet'', F_fed_balance_sheet_yoy),
      (''M2 Growth'', F_m2_growth_yoy),
      (''HY Spread'', F_hy_spread),
      (''Yield Curve 10Y-2Y'', F_yield_curve_10y2y),
      (''Yield Curve 10Y-3M'', F_yield_curve_10y3m),
      (''Initial Claims'', F_initial_claims)]"

text \<open>
  A commentary line is a Korean sentence chosen by the name of the indicator and by the
  side of the extreme, with the display value and the percentile filled in. The model
  keeps what the sentence is built from: the indicator, the side and the percentile.
\<close>

record Commentary =
  about :: IndicatorScore
  isExtremeLow :: bool
  percentile :: int

text \<open>The five names that the chain of \<open>if\<close>/\<open>else if\<close> has a sentence for.\<close>

definition commentedNames :: "string list" where
  "commentedNames =
     [''VIX'', ''HY Spread'', ''Initial Claims'', ''S&P vs 200MA'', ''Yield Curve 10Y-2Y'']"

text \<open>\<open>indicatorWeights[n] || 0\<close>: a missing key, and a weight of 0, give 0.\<close>

definition weightOr0 :: "(string \<rightharpoonup> real) \<Rightarrow> string \<Rightarrow> real" where
  "weightOr0 indicatorWeights n = (case indicatorWeights n of None \<Rightarrow> 0 | Some w \<Rightarrow> w)"

text \<open>
  \<open>[...coreIndicators].sort((a, b) => w(b) - w(a))\<close>: a stable sort by descending
  weight (\<open>Array.prototype.sort\<close> is stable), which \<^const>\<open>sort_key\<close> on the negated
  weight is.
\<close>

definition sortedIndicators ::
  "(string \<rightharpoonup> real) \<Rightarrow> IndicatorScore list \<Rightarrow> IndicatorScore list" where
  "sortedIndicators indicatorWeights coreIndicators =
     sort_key (\<lambda>i. - weightOr0 indicatorWeights (name i)) coreIndicators"

text \<open>The non-null values of one column of the history, in ascending order.\<close>

definition historyValues :: "MarketHistoryRecord list \<Rightarrow> HistoryField \<Rightarrow> real list" where
  "historyValues marketHistory historyField =
     sort (List.map_filter (\<lambda>h. column h historyField) marketHistory)"

definition percentileOf :: "real list \<Rightarrow> real \<Rightarrow> int" where
  "percentileOf hv currentValue =
     (let rank = length (filter (\<lambda>v. v \<le> currentValue) hv)
      in Math_round ((real rank / real (length hv)) * 100))"

text \<open>The loop \<open>for (const indicator of sortedIndicators)\<close>, on the array
  \<open>commentaries\<close>; \<open>continue\<close> is the recursive call on the unchanged array, \<open>break\<close>
  returns the array.\<close>

fun commentaryLoop ::
  "MarketHistoryRecord list \<Rightarrow> IndicatorScore list \<Rightarrow> Commentary list \<Rightarrow> Commentary list"
  where
  "commentaryLoop marketHistory [] commentaries = commentaries"
| "commentaryLoop marketHistory (indicator # rest) commentaries =
     (case indicatorToHistoryField (name indicator) of
        None \<Rightarrow> commentaryLoop marketHistory rest commentaries
      | Some historyField \<Rightarrow>
          if length (historyValues marketHistory historyField) < 10
          then commentaryLoop marketHistory rest commentaries
          else
            let pct = percentileOf (historyValues marketHistory historyField)
                        (rawValue indicator);
                commentaries' =
                  (if (pct \<le> 20 \<or> pct \<ge> 80) \<and> name indicator \<in> set commentedNames
                   then commentaries @
                          [\<lparr>about = indicator, isExtremeLow = (pct \<le> 20), percentile = pct\<rparr>]
                   else commentaries)
            in if length commentaries' \<ge> 2 then commentaries'
               else commentaryLoop marketHistory rest commentaries')"

definition generateExtremeIndicatorCommentary ::
  "IndicatorScore list \<Rightarrow> MarketHistoryRecord list \<Rightarrow> (string \<rightharpoonup> real) \<Rightarrow> Commentary list"
  where
  "generateExtremeIndicatorCommentary coreIndicators marketHistory indicatorWeights =
     commentaryLoop marketHistory (sortedIndicators indicatorWeights coreIndicators) []"

text \<open>The weights that the one caller of \<open>generateExtremeIndicatorCommentary\<close> passes,
  its local table \<open>indicatorWeightsDisplay\<close>.\<close>

definition indicatorWeightsDisplay :: "string \<rightharpoonup> real" where
  "indicatorWeightsDisplay = map_of
     [(''HY Spread'', 281 / 10), (''VIX'', 257 / 10), (''Initial Claims'', 235 / 10),
      (''S&P vs 200MA'', 163 / 10), (''Yield Curve 10Y-2Y'', 63 / 10)]"

section \<open>Auxiliary definitions\<close>

text \<open>
  What one block adds to each accumulator. These two functions are proof devices: they
  let the five blocks be read as a sum.
\<close>

definition zpart :: "StatKey \<Rightarrow> real option \<Rightarrow> real" where
  "zpart k v = fst (accumulate k v (0, 0))"

definition wpart :: "StatKey \<Rightarrow> real option \<Rightarrow> real" where
  "wpart k v = snd (accumulate k v (0, 0))"

text \<open>A snapshot with no indicator, and a history row with no column, to build concrete
  inputs from.\<close>

definition noIndicators :: MarketIndicators where
  "noIndicators =
     \<lparr>fearGreed = None, vix = None, spyVs200MA = None, buffettIndicator = None,
      fedBalanceSheet = None, m2Growth = None, highYieldSpread = None,
      yieldCurve10Y2Y = None, yieldCurve10Y3M = None, initialClaims = None, erp = None,
      treasury3m = None, lastUpdated = ''2026-01-02''\<rparr>"

definition blankRecord :: MarketHistoryRecord where
  "blankRecord =
     \<lparr>date = ''2025-10-03'', fear_greed = None, vix = None, spy_vs_200ma = None,
      buffett_indicator = None, fed_balance_sheet_yoy = None, m2_growth_yoy = None,
      hy_spread = None, yield_curve_10y2y = None, yield_curve_10y3m = None,
      initial_claims = None, erp = None, composite_score = 50\<rparr>"

text \<open>
  What one turn of the commentary loop pushes for an indicator, if anything. A proof
  device: the loop is shown below to return the first two of these lines.
\<close>

definition lineFor :: "MarketHistoryRecord list \<Rightarrow> IndicatorScore \<Rightarrow> Commentary option" where
  "lineFor marketHistory indicator =
     (case indicatorToHistoryField (name indicator) of
        None \<Rightarrow> None
      | Some historyField \<Rightarrow>
          if length (historyValues marketHistory historyField) < 10 then None
          else
            let pct = percentileOf (historyValues marketHistory historyField)
                        (rawValue indicator)
            in if (pct \<le> 20 \<or> pct \<ge> 80) \<and> name indicator \<in> set commentedNames
               then Some \<lparr>about = indicator, isExtremeLow = (pct \<le> 20), percentile = pct\<rparr>
               else None)"

text \<open>An entry and a history of ten rows for concrete runs of the commentary.\<close>

definition sampleEntry :: "string \<Rightarrow> real \<Rightarrow> IndicatorScore" where
  "sampleEntry nm raw =
     \<lparr>name = nm, score = 50, baseScore = 50, momentumScore = 50, category = ''sentiment'',
      range_s = ''12-40'', rawValue = raw, min_v = 12, max_v = 40, timing = coincident\<rparr>"

definition sampleHistory :: "MarketHistoryRecord list" where
  "sampleHistory =
     map (\<lambda>v. blankRecord\<lparr>MarketHistoryRecord.vix := Some v,
                            MarketHistoryRecord.hy_spread := Some (v / 10)\<rparr>)
       [11, 12, 13, 14, 15, 16, 17, 18, 19, 20]"

text \<open>
  The momentum score as claim C4 words it, with the past score extreme-capped. It follows
  the words of the claim, not the source, and serves to compare the two.
\<close>

definition claimedMomentumScore :: "real \<Rightarrow> real \<Rightarrow> real \<Rightarrow> real \<Rightarrow> bool \<Rightarrow> real" where
  "claimedMomentumScore currentBaseScore pastValue lo hi inverted =
     (let pastBaseScore = applyExtremeCap (normalizeScore pastValue lo hi inverted) 15 85
      in max 0 (min 100 (((currentBaseScore - pastBaseScore) + 30) / 60 * 100)))"

section \<open>Properties of the composite score\<close>

lemma Math_round_mono: "x \<le> y \<Longrightarrow> Math_round x \<le> Math_round y"
  unfolding Math_round_def by (intro floor_mono) simp

lemma Math_round_percent_bounds:
  assumes "0 \<le> c" and "c \<le> 100"
  shows "0 \<le> real_of_int (Math_round (c * 100)) / 100"
    and "real_of_int (Math_round (c * 100)) / 100 \<le> 100"
proof -
  have "(0::int) \<le> Math_round (c * 100)"
    unfolding Math_round_def using assms(1) by (simp add: le_floor_iff)
  then show "0 \<le> real_of_int (Math_round (c * 100)) / 100" by simp
  have "c * 100 + 1 / 2 < 10001" using assms(2) by simp
  then have "Math_round (c * 100) < 10001"
    unfolding Math_round_def by (simp add: floor_less_iff)
  then have "Math_round (c * 100) \<le> 10000" by simp
  then have "real_of_int (Math_round (c * 100)) \<le> 10000" by linarith
  then show "real_of_int (Math_round (c * 100)) / 100 \<le> 100" by simp
qed

lemma accumulate_sum: "accumulate k v (z, w) = (z + zpart k v, w + wpart k v)"
  by (cases v) (simp_all add: zpart_def wpart_def Let_def)

lemma wpart_None [simp]: "wpart k None = 0"
  by (simp add: wpart_def)

lemma zpart_None [simp]: "zpart k None = 0"
  by (simp add: zpart_def)

lemma wpart_Some_pos: "0 < wpart k (Some x)"
  by (cases k) (simp_all add: wpart_def Let_def)

lemma wpart_Some_const: "wpart k (Some x) = wpart k (Some y)"
  by (simp add: wpart_def Let_def)

lemma wpart_nonneg: "0 \<le> wpart k v"
  by (cases v) (simp_all add: less_imp_le [OF wpart_Some_pos])

lemma accumulators_sum:
  "accumulators d =
     (zpart HY_Spread (getValue d [K_hySpread, K_hy_spread])
        + zpart VIX (getValue d [K_vix])
        + zpart Initial_Claims (getValue d [K_initialClaims, K_initial_claims])
        + zpart SP_vs_200MA (getValue d [K_spyVs200MA, K_spyVs200ma, K_spy_vs_200ma])
        + zpart Yield_Curve_10Y_2Y (getValue d [K_yieldCurve10Y2Y, K_yield_curve_10y2y]),
      wpart HY_Spread (getValue d [K_hySpread, K_hy_spread])
        + wpart VIX (getValue d [K_vix])
        + wpart Initial_Claims (getValue d [K_initialClaims, K_initial_claims])
        + wpart SP_vs_200MA (getValue d [K_spyVs200MA, K_spyVs200ma, K_spy_vs_200ma])
        + wpart Yield_Curve_10Y_2Y (getValue d [K_yieldCurve10Y2Y, K_yield_curve_10y2y]))"
  unfolding accumulators_def by (simp only: accumulate_sum add_0)

lemma totalWeight_nonneg: "0 \<le> snd (accumulators d)"
  unfolding accumulators_sum snd_conv by (intro add_nonneg_nonneg wpart_nonneg)

lemma zpart_VIX_mono: "a \<le> b \<Longrightarrow> zpart VIX (Some a) \<le> zpart VIX (Some b)"
  by (simp add: zpart_def Let_def divide_right_mono)

lemma zpart_SP_antimono:
  "a \<le> b \<Longrightarrow> zpart SP_vs_200MA (Some b) \<le> zpart SP_vs_200MA (Some a)"
  by (simp add: zpart_def Let_def divide_right_mono)

text \<open>The last two steps of the function, clamping and rounding, keep the order.\<close>

lemma finish_mono:
  assumes "s \<le> s'"
  shows "real_of_int (Math_round (max 0 (min 100 s) * 100)) / 100
           \<le> real_of_int (Math_round (max 0 (min 100 s') * 100)) / 100"
proof -
  have "max 0 (min 100 s) * 100 \<le> max 0 (min 100 s') * 100"
    using assms by simp
  then have "Math_round (max 0 (min 100 s) * 100) \<le> Math_round (max 0 (min 100 s') * 100)"
    by (rule Math_round_mono)
  then show ?thesis by (simp add: divide_right_mono)
qed

lemma score_mono:
  assumes "accumulators d = (z, w)" and "accumulators d' = (z', w)" and "z \<le> z'"
  shows "calculateCompositeScore d \<le> calculateCompositeScore d'"
proof (cases "w = 0")
  case True
  then show ?thesis using assms by (simp add: calculateCompositeScore_def)
next
  case False
  have "0 \<le> w" using totalWeight_nonneg [of d] assms(1) by simp
  then have "z / w \<le> z' / w" using assms(3) by (simp add: divide_right_mono)
  then have "z / w * 10 + 50 \<le> z' / w * 10 + 50"
    by (intro add_right_mono mult_right_mono) simp_all
  then show ?thesis
    using False assms(1,2) finish_mono
    by (simp add: calculateCompositeScore_def Let_def)
qed

lemma score_mono_acc:
  assumes "snd (accumulators d) = snd (accumulators d')"
    and "fst (accumulators d) \<le> fst (accumulators d')"
  shows "calculateCompositeScore d \<le> calculateCompositeScore d'"
proof -
  have 1: "accumulators d = (fst (accumulators d), snd (accumulators d))" by simp
  have 2: "accumulators d' = (fst (accumulators d'), snd (accumulators d))"
    using assms(1) by simp
  show ?thesis by (rule score_mono [OF 1 2 assms(2)])
qed

section \<open>Claims on the composite score\<close>

text \<open>
  C1. Whatever subset of the core fields an input populates, and with whatever values,
  \<open>calculateCompositeScore\<close> returns a number between 0 and 100, both included.
\<close>

theorem calculateCompositeScore_range:
  "0 \<le> calculateCompositeScore d \<and> calculateCompositeScore d \<le> 100"
proof (cases "accumulators d")
  case (Pair z w)
  define c where "c = max 0 (min 100 (z / w * 10 + 50))"
  have "0 \<le> c" and "c \<le> 100" by (simp_all add: c_def)
  then have "0 \<le> real_of_int (Math_round (c * 100)) / 100"
    and "real_of_int (Math_round (c * 100)) / 100 \<le> 100"
    by (rule Math_round_percent_bounds)+
  then show ?thesis
    using Pair by (simp add: calculateCompositeScore_def Let_def c_def)
qed

text \<open>
  C2. When none of the recognised fields is populated, under any of its aliases, the
  score is exactly 50.
\<close>

theorem calculateCompositeScore_no_data:
  assumes "hySpread d = None"
    and "CompositeScoreInput.hy_spread d = None"
    and "CompositeScoreInput.vix d = None"
    and "CompositeScoreInput.initialClaims d = None"
    and "CompositeScoreInput.initial_claims d = None"
    and "CompositeScoreInput.spyVs200MA d = None"
    and "spyVs200ma d = None"
    and "CompositeScoreInput.spy_vs_200ma d = None"
    and "CompositeScoreInput.yieldCurve10Y2Y d = None"
    and "CompositeScoreInput.yield_curve_10y2y d = None"
  shows "calculateCompositeScore d = 50"
  using assms by (simp add: calculateCompositeScore_def accumulators_def)

theorem calculateCompositeScore_no_data_witness:
  "hySpread emptyInput = None
   \<and> CompositeScoreInput.hy_spread emptyInput = None
   \<and> CompositeScoreInput.vix emptyInput = None
   \<and> CompositeScoreInput.initialClaims emptyInput = None
   \<and> CompositeScoreInput.initial_claims emptyInput = None
   \<and> CompositeScoreInput.spyVs200MA emptyInput = None
   \<and> spyVs200ma emptyInput = None
   \<and> CompositeScoreInput.spy_vs_200ma emptyInput = None
   \<and> CompositeScoreInput.yieldCurve10Y2Y emptyInput = None
   \<and> CompositeScoreInput.yield_curve_10y2y emptyInput = None
   \<and> calculateCompositeScore emptyInput = 50"
  using calculateCompositeScore_no_data [of emptyInput] by (simp add: emptyInput_def)

text \<open>
  The claim C3 asks for a strict order. Two steps of the function lose it: the clamp
  (a \<open>vix\<close> of 1000 and one of 2000 both give 100) and the rounding to two decimals
  (a \<open>vix\<close> of 20 and one of 20.001 both give 49.88).
\<close>

theorem calculateCompositeScore_strict_counterexample:
  "\<not> calculateCompositeScore (emptyInput\<lparr>CompositeScoreInput.vix := Some 1000\<rparr>)
       < calculateCompositeScore (emptyInput\<lparr>CompositeScoreInput.vix := Some 2000\<rparr>)
   \<and> \<not> calculateCompositeScore (emptyInput\<lparr>CompositeScoreInput.vix := Some 20\<rparr>)
       < calculateCompositeScore
           (emptyInput\<lparr>CompositeScoreInput.vix := Some (20001 / 1000)\<rparr>)
   \<and> \<not> calculateCompositeScore (emptyInput\<lparr>CompositeScoreInput.spyVs200MA := Some 2000\<rparr>)
       < calculateCompositeScore (emptyInput\<lparr>CompositeScoreInput.spyVs200MA := Some 1000\<rparr>)"
  by (simp add: calculateCompositeScore_def accumulators_def emptyInput_def Let_def
      Math_round_def)

text \<open>
  C3, as amended. With the other fields of the input held fixed, a larger \<open>vix\<close> never
  gives a smaller score, and a larger \<open>spyVs200MA\<close> never gives a larger one.
\<close>

theorem calculateCompositeScore_monotone:
  assumes "a \<le> b"
  shows "calculateCompositeScore (d\<lparr>CompositeScoreInput.vix := Some a\<rparr>)
           \<le> calculateCompositeScore (d\<lparr>CompositeScoreInput.vix := Some b\<rparr>)
         \<and> calculateCompositeScore (d\<lparr>CompositeScoreInput.spyVs200MA := Some b\<rparr>)
           \<le> calculateCompositeScore (d\<lparr>CompositeScoreInput.spyVs200MA := Some a\<rparr>)"
proof
  let ?va = "d\<lparr>CompositeScoreInput.vix := Some a\<rparr>"
  let ?vb = "d\<lparr>CompositeScoreInput.vix := Some b\<rparr>"
  show "calculateCompositeScore ?va \<le> calculateCompositeScore ?vb"
  proof (rule score_mono_acc)
    show "snd (accumulators ?va) = snd (accumulators ?vb)"
      by (simp add: accumulators_sum wpart_Some_const [of VIX a b] cong: option.case_cong)
    show "fst (accumulators ?va) \<le> fst (accumulators ?vb)"
      using assms by (simp add: accumulators_sum zpart_VIX_mono cong: option.case_cong)
  qed
  let ?sa = "d\<lparr>CompositeScoreInput.spyVs200MA := Some a\<rparr>"
  let ?sb = "d\<lparr>CompositeScoreInput.spyVs200MA := Some b\<rparr>"
  show "calculateCompositeScore ?sb \<le> calculateCompositeScore ?sa"
  proof (rule score_mono_acc)
    show "snd (accumulators ?sb) = snd (accumulators ?sa)"
      by (simp add: accumulators_sum wpart_Some_const [of SP_vs_200MA a b]
          cong: option.case_cong)
    show "fst (accumulators ?sb) \<le> fst (accumulators ?sa)"
      using assms by (simp add: accumulators_sum zpart_SP_antimono cong: option.case_cong)
  qed
qed

theorem calculateCompositeScore_monotone_witness:
  "(10::real) \<le> 30
   \<and> calculateCompositeScore (emptyInput\<lparr>CompositeScoreInput.vix := Some 10\<rparr>)
        \<le> calculateCompositeScore (emptyInput\<lparr>CompositeScoreInput.vix := Some 30\<rparr>)
   \<and> calculateCompositeScore (emptyInput\<lparr>CompositeScoreInput.spyVs200MA := Some 30\<rparr>)
        \<le> calculateCompositeScore (emptyInput\<lparr>CompositeScoreInput.spyVs200MA := Some 10\<rparr>)"
  using calculateCompositeScore_monotone [of 10 30 emptyInput] by simp

text \<open>
  C7. A value gives the same score under the verbose name of a field and under any of
  its storage names, whatever the other fields hold; and when the verbose name is
  populated, what the later aliases hold does not matter (for the three names of the
  200-day field, in the order \<open>spyVs200MA\<close>, \<open>spyVs200ma\<close>, \<open>spy_vs_200ma\<close>).
\<close>

theorem alias_equivalence:
  "calculateCompositeScore
       (d\<lparr>hySpread := Some v,
          CompositeScoreInput.hy_spread := None\<rparr>)
     = calculateCompositeScore
       (d\<lparr>hySpread := None,
          CompositeScoreInput.hy_spread := Some v\<rparr>)
   \<and>
   calculateCompositeScore
       (d\<lparr>CompositeScoreInput.initialClaims := Some v,
          CompositeScoreInput.initial_claims := None\<rparr>)
     = calculateCompositeScore
       (d\<lparr>CompositeScoreInput.initialClaims := None,
          CompositeScoreInput.initial_claims := Some v\<rparr>)
   \<and>
   calculateCompositeScore
       (d\<lparr>CompositeScoreInput.spyVs200MA := Some v,
          spyVs200ma := None,
          CompositeScoreInput.spy_vs_200ma := None\<rparr>)
     = calculateCompositeScore
       (d\<lparr>CompositeScoreInput.spyVs200MA := None,
          spyVs200ma := Some v,
          CompositeScoreInput.spy_vs_200ma := None\<rparr>)
   \<and>
   calculateCompositeScore
       (d\<lparr>CompositeScoreInput.spyVs200MA := Some v,
          spyVs200ma := None,
          CompositeScoreInput.spy_vs_200ma := None\<rparr>)
     = calculateCompositeScore
       (d\<lparr>CompositeScoreInput.spyVs200MA := None,
          spyVs200ma := None,
          CompositeScoreInput.spy_vs_200ma := Some v\<rparr>)
   \<and>
   calculateCompositeScore
       (d\<lparr>CompositeScoreInput.yieldCurve10Y2Y := Some v,
          CompositeScoreInput.yield_curve_10y2y := None\<rparr>)
     = calculateCompositeScore
       (d\<lparr>CompositeScoreInput.yieldCurve10Y2Y := None,
          CompositeScoreInput.yield_curve_10y2y := Some v\<rparr>)
   \<and>
   calculateCompositeScore
       (d\<lparr>hySpread := Some v,
          CompositeScoreInput.hy_spread := w\<rparr>)
     = calculateCompositeScore
       (d\<lparr>hySpread := Some v,
          CompositeScoreInput.hy_spread := None\<rparr>)
   \<and>
   calculateCompositeScore
       (d\<lparr>CompositeScoreInput.initialClaims := Some v,
          CompositeScoreInput.initial_claims := w\<rparr>)
     = calculateCompositeScore
       (d\<lparr>CompositeScoreInput.initialClaims := Some v,
          CompositeScoreInput.initial_claims := None\<rparr>)
   \<and>
   calculateCompositeScore
       (d\<lparr>CompositeScoreInput.spyVs200MA := Some v,
          spyVs200ma := w,
          CompositeScoreInput.spy_vs_200ma := w'\<rparr>)
     = calculateCompositeScore
       (d\<lparr>CompositeScoreInput.spyVs200MA := Some v,
          spyVs200ma := None,
          CompositeScoreInput.spy_vs_200ma := None\<rparr>)
   \<and>
   calculateCompositeScore
       (d\<lparr>CompositeScoreInput.spyVs200MA := None,
          spyVs200ma := Some v,
          CompositeScoreInput.spy_vs_200ma := w\<rparr>)
     = calculateCompositeScore
       (d\<lparr>CompositeScoreInput.spyVs200MA := None,
          spyVs200ma := Some v,
          CompositeScoreInput.spy_vs_200ma := None\<rparr>)
   \<and>
   calculateCompositeScore
       (d\<lparr>CompositeScoreInput.yieldCurve10Y2Y := Some v,
          CompositeScoreInput.yield_curve_10y2y := w\<rparr>)
     = calculateCompositeScore
       (d\<lparr>CompositeScoreInput.yieldCurve10Y2Y := Some v,
          CompositeScoreInput.yield_curve_10y2y := None\<rparr>)"
  by (simp add: calculateCompositeScore_def accumulators_def cong: option.case_cong)

section \<open>Properties of the indicator scores\<close>

lemma applyExtremeCap_bounds:
  "15 \<le> applyExtremeCap s 15 85" "applyExtremeCap s 15 85 \<le> 85"
  by (simp_all add: applyExtremeCap_def)

lemma addIndicator_append:
  "addIndicator h s nm raw bsr cat rg lo hi f inverted
     = s @ addIndicator h [] nm raw bsr cat rg lo hi f inverted"
  by (simp add: addIndicator_def Let_def)

lemma set_addIndicator:
  "set (addIndicator h s nm raw bsr cat rg lo hi f inverted)
     = set s \<union> set (addIndicator h [] nm raw bsr cat rg lo hi f inverted)"
  by (subst addIndicator_append) simp

lemma timed_names:
  "''Fear & Greed'' \<in> dom indicatorTiming" "''VIX'' \<in> dom indicatorTiming"
  "''S&P vs 200MA'' \<in> dom indicatorTiming" "''Buffett Indicator'' \<in> dom indicatorTiming"
  "''Equity Risk Premium'' \<in> dom indicatorTiming" "''Fed Balance Sheet'' \<in> dom indicatorTiming"
  "''M2 Growth'' \<in> dom indicatorTiming" "''HY Spread'' \<in> dom indicatorTiming"
  "''Yield Curve 10Y-2Y'' \<in> dom indicatorTiming"
  "''Yield Curve 10Y-3M'' \<in> dom indicatorTiming" "''Initial Claims'' \<in> dom indicatorTiming"
  by (simp_all add: indicatorTiming_def)

lemma all_entries:
  assumes step: "\<And>nm raw bsr cat rg lo hi f inverted e.
      nm \<in> dom indicatorTiming \<Longrightarrow>
      e \<in> set (addIndicator h [] nm raw bsr cat rg lo hi f inverted) \<Longrightarrow> P e"
  shows "\<forall>e \<in> set (calculateIndicatorScores d h). P e"
proof -
  have add: "\<forall>e \<in> set (addIndicator h s nm raw bsr cat rg lo hi f inverted). P e"
    if "\<forall>e \<in> set s. P e" and "nm \<in> dom indicatorTiming"
    for s nm raw bsr cat rg lo hi f inverted
    using that step unfolding set_addIndicator [of h s] by blast
  have b1: "\<forall>e \<in> set (block_fearGreed d h s). P e" if "\<forall>e \<in> set s. P e" for s
    unfolding block_fearGreed_def using that by (simp split: option.split) (intro allI impI add timed_names)
  have b2: "\<forall>e \<in> set (block_vix d h s). P e" if "\<forall>e \<in> set s. P e" for s
    unfolding block_vix_def using that by (simp split: option.split) (intro allI impI add timed_names)
  have b3: "\<forall>e \<in> set (block_spyVs200MA d h s). P e" if "\<forall>e \<in> set s. P e" for s
    unfolding block_spyVs200MA_def using that by (simp split: option.split) (intro allI impI add timed_names)
  have b4: "\<forall>e \<in> set (block_buffettIndicator d h s). P e" if "\<forall>e \<in> set s. P e" for s
    unfolding block_buffettIndicator_def using that by (simp split: option.split) (intro allI impI add timed_names)
  have b5: "\<forall>e \<in> set (block_erp d h s). P e" if "\<forall>e \<in> set s. P e" for s
    unfolding block_erp_def using that by (simp split: option.split) (intro allI impI add timed_names)
  have b6: "\<forall>e \<in> set (block_fedBalanceSheet d h s). P e" if "\<forall>e \<in> set s. P e" for s
    unfolding block_fedBalanceSheet_def using that by (simp split: option.split) (intro allI impI add timed_names)
  have b7: "\<forall>e \<in> set (block_m2Growth d h s). P e" if "\<forall>e \<in> set s. P e" for s
    unfolding block_m2Growth_def using that by (simp split: option.split) (intro allI impI add timed_names)
  have b8: "\<forall>e \<in> set (block_highYieldSpread d h s). P e" if "\<forall>e \<in> set s. P e" for s
    unfolding block_highYieldSpread_def using that by (simp split: option.split) (intro allI impI add timed_names)
  have b9: "\<forall>e \<in> set (block_yieldCurve10Y2Y d h s). P e" if "\<forall>e \<in> set s. P e" for s
    unfolding block_yieldCurve10Y2Y_def using that by (simp split: option.split) (intro allI impI add timed_names)
  have b10: "\<forall>e \<in> set (block_yieldCurve10Y3M d h s). P e" if "\<forall>e \<in> set s. P e" for s
    unfolding block_yieldCurve10Y3M_def using that by (simp split: option.split) (intro allI impI add timed_names)
  have b11: "\<forall>e \<in> set (block_initialClaims d h s). P e" if "\<forall>e \<in> set s. P e" for s
    unfolding block_initialClaims_def using that by (simp split: option.split) (intro allI impI add timed_names)
  show ?thesis
    unfolding calculateIndicatorScores_def
    by (intro b11 b10 b9 b8 b7 b6 b5 b4 b3 b2 b1) simp
qed

lemmas block_defs =
  block_fearGreed_def block_vix_def block_spyVs200MA_def block_buffettIndicator_def
  block_erp_def block_fedBalanceSheet_def block_m2Growth_def block_highYieldSpread_def
  block_yieldCurve10Y2Y_def block_yieldCurve10Y3M_def block_initialClaims_def

lemma timing_table:
  "indicatorTiming nm = Some t \<Longrightarrow>
     (TimingInfo.timing t, currentWeight t, momentumWeight t)
       \<in> {(leading, 5 / 10, 5 / 10), (coincident, 7 / 10, 3 / 10), (lagging, 9 / 10, 1 / 10)}"
  by (auto simp: indicatorTiming_def split: if_splits)

lemma names_addIndicator:
  "name ` set (addIndicator h s nm raw bsr cat rg lo hi f inverted) = insert nm (name ` set s)"
  by (simp add: addIndicator_def Let_def)

lemma names_blocks:
  "name ` set (block_fearGreed d h s)
     = name ` set s \<union> (case fearGreed d of None \<Rightarrow> {} | Some _ \<Rightarrow> {''Fear & Greed''})"
  "name ` set (block_vix d h s)
     = name ` set s \<union> (case MarketIndicators.vix d of None \<Rightarrow> {}
                          | Some v \<Rightarrow> if v = 0 then {} else {''VIX''})"
  "name ` set (block_spyVs200MA d h s)
     = name ` set s \<union> (case MarketIndicators.spyVs200MA d of None \<Rightarrow> {}
                          | Some _ \<Rightarrow> {''S&P vs 200MA''})"
  "name ` set (block_buffettIndicator d h s)
     = name ` set s \<union> (case buffettIndicator d of None \<Rightarrow> {}
                          | Some _ \<Rightarrow> {''Buffett Indicator''})"
  "name ` set (block_erp d h s)
     = name ` set s \<union> (case MarketIndicators.erp d of None \<Rightarrow> {}
                          | Some _ \<Rightarrow> {''Equity Risk Premium''})"
  "name ` set (block_fedBalanceSheet d h s)
     = name ` set s \<union> (case fedBalanceSheet d of None \<Rightarrow> {}
                          | Some _ \<Rightarrow> {''Fed Balance Sheet''})"
  "name ` set (block_m2Growth d h s)
     = name ` set s \<union> (case m2Growth d of None \<Rightarrow> {} | Some _ \<Rightarrow> {''M2 Growth''})"
  "name ` set (block_highYieldSpread d h s)
     = name ` set s \<union> (case highYieldSpread d of None \<Rightarrow> {}
                          | Some v \<Rightarrow> if v = 0 then {} else {''HY Spread''})"
  "name ` set (block_yieldCurve10Y2Y d h s)
     = name ` set s \<union> (case MarketIndicators.yieldCurve10Y2Y d of None \<Rightarrow> {}
                          | Some _ \<Rightarrow> {''Yield Curve 10Y-2Y''})"
  "name ` set (block_yieldCurve10Y3M d h s)
     = name ` set s \<union> (case yieldCurve10Y3M d of None \<Rightarrow> {}
                          | Some _ \<Rightarrow> {''Yield Curve 10Y-3M''})"
  "name ` set (block_initialClaims d h s)
     = name ` set s \<union> (case MarketIndicators.initialClaims d of None \<Rightarrow> {}
                          | Some _ \<Rightarrow> {''Initial Claims''})"
  by (simp_all add: block_defs names_addIndicator split: option.split)

lemma names_calculateIndicatorScores:
  "name ` set (calculateIndicatorScores d h) =
     (case fearGreed d of None \<Rightarrow> {} | Some _ \<Rightarrow> {''Fear & Greed''})
     \<union> (case MarketIndicators.vix d of None \<Rightarrow> {} | Some v \<Rightarrow> if v = 0 then {} else {''VIX''})
     \<union> (case MarketIndicators.spyVs200MA d of None \<Rightarrow> {} | Some _ \<Rightarrow> {''S&P vs 200MA''})
     \<union> (case buffettIndicator d of None \<Rightarrow> {} | Some _ \<Rightarrow> {''Buffett Indicator''})
     \<union> (case MarketIndicators.erp d of None \<Rightarrow> {} | Some _ \<Rightarrow> {''Equity Risk Premium''})
     \<union> (case fedBalanceSheet d of None \<Rightarrow> {} | Some _ \<Rightarrow> {''Fed Balance Sheet''})
     \<union> (case m2Growth d of None \<Rightarrow> {} | Some _ \<Rightarrow> {''M2 Growth''})
     \<union> (case highYieldSpread d of None \<Rightarrow> {}
          | Some v \<Rightarrow> if v = 0 then {} else {''HY Spread''})
     \<union> (case MarketIndicators.yieldCurve10Y2Y d of None \<Rightarrow> {}
          | Some _ \<Rightarrow> {''Yield Curve 10Y-2Y''})
     \<union> (case yieldCurve10Y3M d of None \<Rightarrow> {} | Some _ \<Rightarrow> {''Yield Curve 10Y-3M''})
     \<union> (case MarketIndicators.initialClaims d of None \<Rightarrow> {} | Some _ \<Rightarrow> {''Initial Claims''})"
  unfolding calculateIndicatorScores_def names_blocks by simp

lemma normalizeScore_range:
  assumes "lo < hi"
  shows "0 \<le> normalizeScore v lo hi inverted" and "normalizeScore v lo hi inverted \<le> 100"
proof -
  define c where "c = max lo (min hi v)"
  define n where "n = (c - lo) / (hi - lo) * 100"
  have c: "lo \<le> c" "c \<le> hi" using assms by (auto simp: c_def)
  have q0: "0 \<le> (c - lo) / (hi - lo)" using c assms by simp
  have q1: "(c - lo) / (hi - lo) \<le> 1" using c assms by simp
  have n0: "0 \<le> n" unfolding n_def by (intro mult_nonneg_nonneg q0) simp
  have "n \<le> 1 * 100" unfolding n_def by (intro mult_right_mono q1) simp
  then have n1: "n \<le> 100" by simp
  have eq: "normalizeScore v lo hi inverted = (if inverted then 100 - n else n)"
    by (simp add: normalizeScore_def Let_def n_def c_def)
  show "0 \<le> normalizeScore v lo hi inverted" unfolding eq using n0 n1 by simp
  show "normalizeScore v lo hi inverted \<le> 100" unfolding eq using n0 n1 by simp
qed

lemma momentum_run:
  "map momentumScore
     (calculateIndicatorScores (noIndicators\<lparr>MarketIndicators.vix := Some (148 / 10)\<rparr>)
        [blankRecord\<lparr>MarketHistoryRecord.vix := Some 12\<rparr>]) = [200 / 3]"
  by (simp add: calculateIndicatorScores_def block_defs noIndicators_def blankRecord_def
      addIndicator_def getThreeMonthAgoValue_def calculateMomentumScore_def normalizeScore_def
      applyExtremeCap_def Let_def)

section \<open>Properties of the commentary\<close>

lemma commentaryLoop_step:
  "commentaryLoop mh (i # rest) acc =
     (case lineFor mh i of
        None \<Rightarrow> commentaryLoop mh rest acc
      | Some c \<Rightarrow> if length acc + 1 \<ge> 2 then acc @ [c] else commentaryLoop mh rest (acc @ [c]))"
  if "length acc < 2"
  using that by (simp add: lineFor_def Let_def split: option.split)

lemma commentaryLoop_take:
  "length acc < 2 \<Longrightarrow>
     commentaryLoop mh xs acc = take 2 (acc @ List.map_filter (lineFor mh) xs)"
proof (induction xs arbitrary: acc)
  case Nil
  then show ?case by (simp add: map_filter_simps)
next
  case (Cons i rest)
  show ?case
  proof (cases "lineFor mh i")
    case None
    then show ?thesis
      using Cons by (simp add: commentaryLoop_step map_filter_simps del: commentaryLoop.simps)
  next
    case (Some c)
    show ?thesis
    proof (cases "length acc = 1")
      case True
      then show ?thesis
        using Some Cons.prems
        by (simp add: commentaryLoop_step map_filter_simps del: commentaryLoop.simps)
    next
      case False
      then have nil: "acc = []" using Cons.prems by (cases acc) auto
      then have "length (acc @ [c]) < 2" by simp
      then have "commentaryLoop mh rest (acc @ [c])
                   = take 2 ((acc @ [c]) @ List.map_filter (lineFor mh) rest)"
        by (rule Cons.IH)
      then show ?thesis
        using Some nil
        by (simp add: commentaryLoop_step map_filter_simps del: commentaryLoop.simps)
    qed
  qed
qed

lemma generate_take:
  "generateExtremeIndicatorCommentary ci mh w
     = take 2 (List.map_filter (lineFor mh) (sortedIndicators w ci))"
  by (simp add: generateExtremeIndicatorCommentary_def commentaryLoop_take)

lemma length_historyValues:
  "length (historyValues mh f) = length (filter (\<lambda>h. column h f \<noteq> None) mh)"
  by (simp add: historyValues_def map_filter_def)

lemma lineFor_Some:
  assumes "lineFor mh i = Some c"
  shows "about c = i"
    and "\<exists>f. indicatorToHistoryField (name i) = Some f
           \<and> 10 \<le> length (filter (\<lambda>h. column h f \<noteq> None) mh)
           \<and> percentile c = percentileOf (historyValues mh f) (rawValue i)
           \<and> (percentile c \<le> 20 \<or> 80 \<le> percentile c)"
  using assms
  by (auto simp: lineFor_def Let_def length_historyValues split: option.splits if_splits)

lemma about_map_filter:
  "map about (List.map_filter (lineFor mh) xs) = filter (\<lambda>i. lineFor mh i \<noteq> None) xs"
  by (induction xs) (auto simp: map_filter_simps lineFor_Some(1) split: option.splits)

lemma set_sortedIndicators: "set (sortedIndicators w ci) = set ci"
  by (simp add: sortedIndicators_def)

lemma sortedIndicators_descending:
  "sorted_wrt (\<lambda>a b. weightOr0 w (name a) \<ge> weightOr0 w (name b)) (sortedIndicators w ci)"
proof -
  have "sorted (map (\<lambda>i. - weightOr0 w (name i)) (sortedIndicators w ci))"
    unfolding sortedIndicators_def by (rule sorted_sort_key)
  then show ?thesis by (simp add: sorted_map)
qed

lemma sample_run:
  "map (\<lambda>c. (name (about c), isExtremeLow c, percentile c))
     (generateExtremeIndicatorCommentary [sampleEntry ''VIX'' 11, sampleEntry ''HY Spread'' 2]
        sampleHistory indicatorWeightsDisplay)
   = [(''HY Spread'', False, 100), (''VIX'', True, 10)]"
  by (simp add: generateExtremeIndicatorCommentary_def sortedIndicators_def weightOr0_def
      indicatorWeightsDisplay_def sampleEntry_def sampleHistory_def blankRecord_def
      indicatorToHistoryField_def historyValues_def map_filter_simps percentileOf_def
      Math_round_def commentedNames_def Let_def)

section \<open>Claims on the indicator scores and the stance\<close>

text \<open>
  C6. Whatever the snapshot and the history, every entry of \<open>calculateIndicatorScores\<close>
  has its \<open>baseScore\<close> and its final \<open>score\<close> between 15 and 85, both included.
\<close>

theorem extreme_cap_invariant:
  "\<forall>e \<in> set (calculateIndicatorScores d h).
     15 \<le> baseScore e \<and> baseScore e \<le> 85 \<and> 15 \<le> score e \<and> score e \<le> 85"
proof (rule all_entries)
  fix nm raw bsr cat rg lo hi f inverted e
  assume "e \<in> set (addIndicator h [] nm raw bsr cat rg lo hi f inverted)"
  then show "15 \<le> baseScore e \<and> baseScore e \<le> 85 \<and> 15 \<le> score e \<and> score e \<le> 85"
    by (simp add: addIndicator_def Let_def applyExtremeCap_bounds)
qed

theorem extreme_cap_invariant_witness:
  "map name (calculateIndicatorScores (noIndicators\<lparr>MarketIndicators.vix := Some 50\<rparr>) []) = [''VIX'']
   \<and> 15 \<le> baseScore (hd (calculateIndicatorScores (noIndicators\<lparr>MarketIndicators.vix := Some 50\<rparr>) []))
   \<and> baseScore (hd (calculateIndicatorScores (noIndicators\<lparr>MarketIndicators.vix := Some 50\<rparr>) [])) \<le> 85
   \<and> 15 \<le> score (hd (calculateIndicatorScores (noIndicators\<lparr>MarketIndicators.vix := Some 50\<rparr>) []))
   \<and> score (hd (calculateIndicatorScores (noIndicators\<lparr>MarketIndicators.vix := Some 50\<rparr>) [])) \<le> 85"
proof -
  let ?out = "calculateIndicatorScores (noIndicators\<lparr>MarketIndicators.vix := Some 50\<rparr>) []"
  have names: "map name ?out = [''VIX'']"
    by (simp add: calculateIndicatorScores_def noIndicators_def block_defs
        addIndicator_def Let_def)
  then have "?out \<noteq> []" by auto
  then have "hd ?out \<in> set ?out" by simp
  with extreme_cap_invariant [of "noIndicators\<lparr>MarketIndicators.vix := Some 50\<rparr>" "[]"] names
  show ?thesis by blast
qed

text \<open>
  C8. Every entry of \<open>calculateIndicatorScores\<close> has a row in the timing table; the entry
  carries the timing of that row, the weights of the row are those of its timing
  (leading 0.5 and 0.5, coincident 0.7 and 0.3, lagging 0.9 and 0.1), and the final score
  is the extreme cap of \<open>baseScore * currentWeight + momentumScore * momentumWeight\<close>.
\<close>

theorem timing_blend:
  "\<forall>e \<in> set (calculateIndicatorScores d h).
     \<exists>t. indicatorTiming (name e) = Some t
       \<and> IndicatorScore.timing e = TimingInfo.timing t
       \<and> (TimingInfo.timing t, currentWeight t, momentumWeight t)
            \<in> {(leading, 5 / 10, 5 / 10), (coincident, 7 / 10, 3 / 10), (lagging, 9 / 10, 1 / 10)}
       \<and> score e
            = applyExtremeCap (baseScore e * currentWeight t + momentumScore e * momentumWeight t)
                15 85"
proof (rule all_entries)
  fix nm raw bsr cat rg lo hi f inverted e
  assume nm: "nm \<in> dom indicatorTiming"
    and e: "e \<in> set (addIndicator h [] nm raw bsr cat rg lo hi f inverted)"
  from nm obtain t where t: "indicatorTiming nm = Some t" by auto
  then have w: "(TimingInfo.timing t, currentWeight t, momentumWeight t)
            \<in> {(leading, 5 / 10, 5 / 10), (coincident, 7 / 10, 3 / 10), (lagging, 9 / 10, 1 / 10)}"
    by (rule timing_table)
  show "\<exists>t. indicatorTiming (name e) = Some t
       \<and> IndicatorScore.timing e = TimingInfo.timing t
       \<and> (TimingInfo.timing t, currentWeight t, momentumWeight t)
            \<in> {(leading, 5 / 10, 5 / 10), (coincident, 7 / 10, 3 / 10), (lagging, 9 / 10, 1 / 10)}
       \<and> score e
            = applyExtremeCap (baseScore e * currentWeight t + momentumScore e * momentumWeight t)
                15 85"
    using e t w by (intro exI [of _ t]) (simp add: addIndicator_def Let_def)
qed

theorem timing_blend_witness:
  "map name (calculateIndicatorScores (noIndicators\<lparr>MarketIndicators.vix := Some 50\<rparr>) []) = [''VIX'']
   \<and> (\<exists>t. indicatorTiming ''VIX'' = Some t
       \<and> IndicatorScore.timing (hd (calculateIndicatorScores (noIndicators\<lparr>MarketIndicators.vix := Some 50\<rparr>) []))
            = TimingInfo.timing t
       \<and> (TimingInfo.timing t, currentWeight t, momentumWeight t)
            \<in> {(leading, 5 / 10, 5 / 10), (coincident, 7 / 10, 3 / 10), (lagging, 9 / 10, 1 / 10)}
       \<and> score (hd (calculateIndicatorScores (noIndicators\<lparr>MarketIndicators.vix := Some 50\<rparr>) []))
            = applyExtremeCap
                (baseScore (hd (calculateIndicatorScores (noIndicators\<lparr>MarketIndicators.vix := Some 50\<rparr>) []))
                   * currentWeight t
                 + momentumScore (hd (calculateIndicatorScores (noIndicators\<lparr>MarketIndicators.vix := Some 50\<rparr>) []))
                   * momentumWeight t)
                15 85)"
proof -
  let ?out = "calculateIndicatorScores (noIndicators\<lparr>MarketIndicators.vix := Some 50\<rparr>) []"
  have names: "map name ?out = [''VIX'']"
    by (simp add: calculateIndicatorScores_def noIndicators_def block_defs
        addIndicator_def Let_def)
  then have ne: "?out \<noteq> []" by auto
  then have "hd ?out \<in> set ?out" by simp
  moreover have "name (hd ?out) = ''VIX''"
    using names ne by (simp add: hd_map [symmetric])
  ultimately show ?thesis
    using timing_blend [of "noIndicators\<lparr>MarketIndicators.vix := Some 50\<rparr>" "[]"] names by fastforce
qed

text \<open>
  C10. A \<open>vix\<close> or a \<open>highYieldSpread\<close> of exactly 0 gives no entry of that name, and the
  whole result is the one of the snapshot where the field is \<open>null\<close>; a
  \<open>yieldCurve10Y2Y\<close>, a \<open>yieldCurve10Y3M\<close> or an \<open>erp\<close> of 0 does give its entry.
\<close>

theorem zero_is_absent:
  "(MarketIndicators.vix d = Some 0 \<longrightarrow> ''VIX'' \<notin> name ` set (calculateIndicatorScores d h))
   \<and> (highYieldSpread d = Some 0 \<longrightarrow> ''HY Spread'' \<notin> name ` set (calculateIndicatorScores d h))
   \<and> calculateIndicatorScores (d\<lparr>MarketIndicators.vix := Some 0\<rparr>) h
        = calculateIndicatorScores (d\<lparr>MarketIndicators.vix := None\<rparr>) h
   \<and> calculateIndicatorScores (d\<lparr>highYieldSpread := Some 0\<rparr>) h
        = calculateIndicatorScores (d\<lparr>highYieldSpread := None\<rparr>) h
   \<and> (MarketIndicators.yieldCurve10Y2Y d = Some 0
        \<longrightarrow> ''Yield Curve 10Y-2Y'' \<in> name ` set (calculateIndicatorScores d h))
   \<and> (yieldCurve10Y3M d = Some 0
        \<longrightarrow> ''Yield Curve 10Y-3M'' \<in> name ` set (calculateIndicatorScores d h))
   \<and> (MarketIndicators.erp d = Some 0
        \<longrightarrow> ''Equity Risk Premium'' \<in> name ` set (calculateIndicatorScores d h))"
proof (intro conjI impI)
  show "calculateIndicatorScores (d\<lparr>MarketIndicators.vix := Some 0\<rparr>) h
        = calculateIndicatorScores (d\<lparr>MarketIndicators.vix := None\<rparr>) h"
    by (simp add: calculateIndicatorScores_def block_defs)
  show "calculateIndicatorScores (d\<lparr>highYieldSpread := Some 0\<rparr>) h
        = calculateIndicatorScores (d\<lparr>highYieldSpread := None\<rparr>) h"
    by (simp add: calculateIndicatorScores_def block_defs)
qed (simp_all add: names_calculateIndicatorScores split: option.split)

theorem zero_is_absent_witness:
  "MarketIndicators.vix (noIndicators\<lparr>MarketIndicators.vix := Some 0, highYieldSpread := Some 0,
       MarketIndicators.yieldCurve10Y2Y := Some 0, yieldCurve10Y3M := Some 0,
       MarketIndicators.erp := Some 0\<rparr>) = Some 0
   \<and> name ` set (calculateIndicatorScores
         (noIndicators\<lparr>MarketIndicators.vix := Some 0, highYieldSpread := Some 0,
            MarketIndicators.yieldCurve10Y2Y := Some 0, yieldCurve10Y3M := Some 0,
            MarketIndicators.erp := Some 0\<rparr>) [])
       = {''Equity Risk Premium'', ''Yield Curve 10Y-2Y'', ''Yield Curve 10Y-3M''}"
  using zero_is_absent [of "noIndicators\<lparr>MarketIndicators.vix := Some 0,
       highYieldSpread := Some 0, MarketIndicators.yieldCurve10Y2Y := Some 0,
       yieldCurve10Y3M := Some 0, MarketIndicators.erp := Some 0\<rparr>" "[]"]
  by (auto simp: names_calculateIndicatorScores noIndicators_def)

text \<open>
  The claim C5 has \<open>determineStance(-5)\<close> return \<open>defensive\<close>. The last guard of the
  function is \<open>avgScore >= 0\<close>, and a negative score falls through to \<open>unknown\<close>.
\<close>

theorem determineInvestmentStance_counterexample:
  "determineInvestmentStance (- 5) \<noteq> defensive"
  by (simp add: determineInvestmentStance_def)

text \<open>
  C5, as amended. The thresholds are tried from the top and the first that holds decides:
  60 gives \<open>aggressive_plus\<close>, 59.99 gives \<open>aggressive\<close>, 40.99 gives \<open>defensive\<close>, and
  -5 gives \<open>unknown\<close>; a score of 0 or more never gives \<open>unknown\<close>, and a negative score
  always does.
\<close>

theorem determineInvestmentStance_thresholds:
  "determineInvestmentStance 60 = aggressive_plus
   \<and> determineInvestmentStance (5999 / 100) = aggressive
   \<and> determineInvestmentStance (4099 / 100) = defensive
   \<and> determineInvestmentStance (- 5) = unknown
   \<and> (\<forall>x. 0 \<le> x \<longrightarrow> determineInvestmentStance x \<noteq> unknown)
   \<and> (\<forall>x. x < 0 \<longrightarrow> determineInvestmentStance x = unknown)"
  by (simp add: determineInvestmentStance_def)

theorem determineInvestmentStance_thresholds_witness:
  "(0::real) \<le> 0 \<and> determineInvestmentStance 0 \<noteq> unknown
   \<and> (- 1 :: real) < 0 \<and> determineInvestmentStance (- 1) = unknown"
  using determineInvestmentStance_thresholds by simp

text \<open>
  The claim C4 has the past score extreme-capped like the displayed base score. In the
  source the momentum compares the two uncapped scores: with a \<open>vix\<close> of 14.8 now and of
  12 in the history, the momentum is 66.67, and it would be 41.67 with the past score
  capped (50 with both capped).
\<close>

theorem momentum_capped_counterexample:
  "map momentumScore
     (calculateIndicatorScores (noIndicators\<lparr>MarketIndicators.vix := Some (148 / 10)\<rparr>)
        [blankRecord\<lparr>MarketHistoryRecord.vix := Some 12\<rparr>])
     \<noteq> [claimedMomentumScore (normalizeScore (148 / 10) 12 40 False) 12 12 40 False]
   \<and> map momentumScore
     (calculateIndicatorScores (noIndicators\<lparr>MarketIndicators.vix := Some (148 / 10)\<rparr>)
        [blankRecord\<lparr>MarketHistoryRecord.vix := Some 12\<rparr>])
     \<noteq> [claimedMomentumScore (applyExtremeCap (normalizeScore (148 / 10) 12 40 False) 15 85)
          12 12 40 False]"
  unfolding momentum_run
  by (simp add: claimedMomentumScore_def normalizeScore_def applyExtremeCap_def Let_def)

text \<open>
  C4, as amended. The momentum of the entry that \<open>addIndicator\<close> pushes is 50 when the
  history is empty or the row at index \<open>max(0, length - 13)\<close> has no value in the column of
  the indicator; otherwise it is
  \<open>clamp(((baseScoreRaw - pastScore) + 30) / 60 * 100, 0, 100)\<close>, where \<open>baseScoreRaw\<close> is
  the current score before the extreme cap and \<open>pastScore\<close> is \<open>normalizeScore\<close> of that
  row's value: in the interval from 0 to 100 when \<open>min < max\<close>, and not extreme-capped.
\<close>

theorem momentum_step:
  "momentumScore (last (addIndicator history scores nm raw baseScoreRaw cat rg lo hi f inverted))
     = (if history = [] then 50
        else case column (history ! nat (max 0 (int (length history) - 13))) f of
               None \<Rightarrow> 50
             | Some past \<Rightarrow>
                 max 0 (min 100
                   (((baseScoreRaw - normalizeScore past lo hi inverted) + 30) / 60 * 100)))
   \<and> (lo < hi \<longrightarrow> (\<forall>past. 0 \<le> normalizeScore past lo hi inverted
                          \<and> normalizeScore past lo hi inverted \<le> 100))"
proof
  have idx: "nat (max 0 (int (length history) - 13)) < length history" if "history \<noteq> []"
    using that by (cases history) auto
  show "momentumScore (last (addIndicator history scores nm raw baseScoreRaw cat rg lo hi f inverted))
     = (if history = [] then 50
        else case column (history ! nat (max 0 (int (length history) - 13))) f of
               None \<Rightarrow> 50
             | Some past \<Rightarrow>
                 max 0 (min 100
                   (((baseScoreRaw - normalizeScore past lo hi inverted) + 30) / 60 * 100)))"
    using idx
    by (simp add: addIndicator_def getThreeMonthAgoValue_def calculateMomentumScore_def Let_def
        split: option.split)
  show "lo < hi \<longrightarrow> (\<forall>past. 0 \<le> normalizeScore past lo hi inverted
                          \<and> normalizeScore past lo hi inverted \<le> 100)"
    using normalizeScore_range by blast
qed

theorem momentum_step_witness:
  "(12::real) < 40
   \<and> momentumScore (last (addIndicator [blankRecord\<lparr>MarketHistoryRecord.vix := Some 12\<rparr>] []
        ''VIX'' (148 / 10) 10 ''sentiment'' ''12-40'' 12 40 F_vix False)) = 200 / 3
   \<and> 0 \<le> normalizeScore 12 12 40 False \<and> normalizeScore 12 12 40 False \<le> 100"
  using momentum_step [of "[blankRecord\<lparr>MarketHistoryRecord.vix := Some 12\<rparr>]" "[]" "''VIX''"
      "148 / 10" 10 "''sentiment''" "''12-40''" 12 40 F_vix False]
  by (simp add: blankRecord_def normalizeScore_def Let_def)

text \<open>
  C9. The commentary has at most two lines. Every line is about one of the indicators
  given, whose column of the history has at least ten non-null values and whose
  percentile, \<open>round(count(values <= current) / count(values) * 100)\<close> over the sorted
  non-null values, is at most 20 or at least 80. The lines follow the order of the
  indicators sorted by descending weight: a rearrangement of the indicators given, in
  which no indicator comes before one of larger weight.
\<close>

theorem extreme_commentary:
  "length (generateExtremeIndicatorCommentary ci mh w) \<le> 2
   \<and> (\<forall>c \<in> set (generateExtremeIndicatorCommentary ci mh w).
         about c \<in> set ci
         \<and> (\<exists>f. indicatorToHistoryField (name (about c)) = Some f
               \<and> 10 \<le> length (filter (\<lambda>h. column h f \<noteq> None) mh)
               \<and> percentile c
                    = Math_round
                        (real (length (filter (\<lambda>v. v \<le> rawValue (about c)) (historyValues mh f)))
                           / real (length (historyValues mh f)) * 100)
               \<and> (percentile c \<le> 20 \<or> 80 \<le> percentile c)))
   \<and> subseq (map about (generateExtremeIndicatorCommentary ci mh w)) (sortedIndicators w ci)
   \<and> mset (sortedIndicators w ci) = mset ci
   \<and> sorted_wrt (\<lambda>a b. weightOr0 w (name a) \<ge> weightOr0 w (name b)) (sortedIndicators w ci)"
proof (intro conjI ballI)
  show "length (generateExtremeIndicatorCommentary ci mh w) \<le> 2"
    by (simp add: generate_take)
next
  fix c assume "c \<in> set (generateExtremeIndicatorCommentary ci mh w)"
  then have "c \<in> set (List.map_filter (lineFor mh) (sortedIndicators w ci))"
    unfolding generate_take by (rule in_set_takeD)
  then obtain i where i: "i \<in> set ci" "lineFor mh i = Some c"
    by (auto simp: map_filter_def set_sortedIndicators)
  show "about c \<in> set ci" using i lineFor_Some(1) by simp
  show "\<exists>f. indicatorToHistoryField (name (about c)) = Some f
               \<and> 10 \<le> length (filter (\<lambda>h. column h f \<noteq> None) mh)
               \<and> percentile c
                    = Math_round
                        (real (length (filter (\<lambda>v. v \<le> rawValue (about c)) (historyValues mh f)))
                           / real (length (historyValues mh f)) * 100)
               \<and> (percentile c \<le> 20 \<or> 80 \<le> percentile c)"
    using lineFor_Some(2) [OF i(2)] lineFor_Some(1) [OF i(2)]
    by (simp add: percentileOf_def Let_def)
next
  have "subseq (take 2 (filter (\<lambda>i. lineFor mh i \<noteq> None) (sortedIndicators w ci)))
          (filter (\<lambda>i. lineFor mh i \<noteq> None) (sortedIndicators w ci))"
    by (intro prefix_imp_subseq take_is_prefix)
  moreover have "subseq (filter (\<lambda>i. lineFor mh i \<noteq> None) (sortedIndicators w ci))
          (sortedIndicators w ci)"
    by (rule subseq_filter_left)
  ultimately show "subseq (map about (generateExtremeIndicatorCommentary ci mh w))
          (sortedIndicators w ci)"
    unfolding generate_take take_map [symmetric] about_map_filter
    by (rule subseq_order.trans)
next
  show "mset (sortedIndicators w ci) = mset ci"
    by (simp add: sortedIndicators_def)
next
  show "sorted_wrt (\<lambda>a b. weightOr0 w (name a) \<ge> weightOr0 w (name b)) (sortedIndicators w ci)"
    by (rule sortedIndicators_descending)
qed

theorem extreme_commentary_witness:
  "map (\<lambda>c. (name (about c), isExtremeLow c, percentile c))
     (generateExtremeIndicatorCommentary [sampleEntry ''VIX'' 11, sampleEntry ''HY Spread'' 2]
        sampleHistory indicatorWeightsDisplay)
     = [(''HY Spread'', False, 100), (''VIX'', True, 10)]
   \<and> length (generateExtremeIndicatorCommentary
        [sampleEntry ''VIX'' 11, sampleEntry ''HY Spread'' 2] sampleHistory
        indicatorWeightsDisplay) \<le> 2
   \<and> (\<exists>f. indicatorToHistoryField ''HY Spread'' = Some f
         \<and> 10 \<le> length (filter (\<lambda>h. column h f \<noteq> None) sampleHistory))"
proof -
  let ?out = "generateExtremeIndicatorCommentary
        [sampleEntry ''VIX'' 11, sampleEntry ''HY Spread'' 2] sampleHistory
        indicatorWeightsDisplay"
  have run: "map (\<lambda>c. (name (about c), isExtremeLow c, percentile c)) ?out
     = [(''HY Spread'', False, 100), (''VIX'', True, 10)]"
    by (rule sample_run)
  then have ne: "?out \<noteq> []" by auto
  then have mem: "hd ?out \<in> set ?out" by simp
  have nm: "name (about (hd ?out)) = ''HY Spread''"
    using run ne by (cases ?out) auto
  from extreme_commentary [of "[sampleEntry ''VIX'' 11, sampleEntry ''HY Spread'' 2]"
      sampleHistory indicatorWeightsDisplay] mem nm run
  show ?thesis by fastforce
qed

end
